theory Spec2Isabelle
  imports Main
begin

section \<open>Data model\<close>

text \<open>
  An RF code value is a number or a string (the serial line delivers JSON). A field that a
  JavaScript object does not have reads as \<open>undefined\<close>: such a field is an
  \<open>option\<close>, with \<open>None\<close> for \<open>undefined\<close>.
\<close>

datatype rfcode = CodeNum int | CodeStr string

text \<open>The code event handed to the listener: \<open>{ code, status }\<close>.\<close>

record code_event =
  code :: rfcode
  status :: string

text \<open>
  A card of the CARDS store. \<open>device\<close> holds \<open>on_code\<close> and \<open>off_code\<close> for a
  switch, \<open>trigger_code\<close> and \<open>armed\<close> for an alarm. \<open>armed\<close> is only ever tested
  for truthiness, so it is a \<open>bool\<close> (\<open>False\<close> when the field is missing).
\<close>

record device =
  on_code :: "rfcode option"
  off_code :: "rfcode option"
  trigger_code :: "rfcode option"
  armed :: bool

record card =
  shortname :: string
  type :: string
  device :: device
  img :: "string option"

datatype error = Error string

text \<open>The error of a failed \<open>fs.unlink\<close>; the handler reads its \<open>path\<close>.\<close>

datatype fs_error = FsError (err_path: string)

text \<open>The result of \<open>dbFunctions.isCodeAvailable\<close>.\<close>

record availability =
  isAvailable :: bool
  assignedTo :: "string option"

text \<open>A settled promise.\<close>

datatype 'a promise = Resolved 'a | Rejected error


text \<open>
  The query object given to \<open>db.RFCODES.remove\<close>: \<open>{code: v}\<close> or
  \<open>{$or: [q1, q2, ...]}\<close>.
\<close>

datatype query = QCode "rfcode option" | QOr "query list"

text \<open>
  The variable \<open>type\<close> of the class \<open>rf433mhz\<close>: \<open>'rpi'\<close> or \<open>'arduino'\<close>.
\<close>

datatype rf_type = Rpi | Arduino

text \<open>The parameter of the class, \<open>{platform, port}\<close>.\<close>

record board =
  platform :: string
  port :: string

section \<open>Effects\<close>

text \<open>
  What is printed, emitted or passed on. A string concatenation \<open>a + b\<close> with a non-string
  operand is kept as \<open>AConcat\<close> of its operands.
\<close>

datatype jsarg =
    AStr string
  | ANum nat
  | ABool bool
  | AUndefined
  | ANull
  | AShortname "string option"
  | ACodeData code_event
  | ACard card
  | AErr error
  | AConcat "jsarg list"

text \<open>
  The observable actions of the program, in the order in which they happen. The modules
  \<open>components/dbFunctions.js\<close>, \<open>components/notification.js\<close> and
  \<open>components/socketFunctions.js\<close> are collaborators: a call to one of their functions is
  an effect. \<open>AlarmAdviseAll\<close> is the call \<open>notification.alarmAdviseAll(card)\<close> (the
  alarm-advise webhook dispatch), \<open>WebHookCodeDetected\<close> the call
  \<open>notification.webHookCodeDetected(codeData)\<close> (the code-detected webhook dispatch),
  \<open>AsyncEmitInitCards\<close> the call \<open>socketFunctions.asyncEmitInitCards()\<close> (the cards
  changed signal). \<open>IoEmit\<close> is \<open>io.emit(event, payload)\<close>, which sends to every open
  socket. \<open>SerialClose\<close> is the call \<open>serial.close(callback)\<close>. A call of a
  collaborator or of a library returns without throwing; what it answers later, through a
  promise or a callback, is a parameter of the listener that made the call.
\<close>

datatype effect =
    ConsoleLog "jsarg list"
  | ConsoleError "jsarg list"
  | PutCodeInDB code_event
  | IsCodeAvailable rfcode
  | AlarmTriggered "string option" string
  | IoEmit string jsarg
  | AlarmAdviseAll card
  | WebHookCodeDetected code_event
  | AsyncEmitInitCards
  | RFCODES_remove query bool
  | FsUnlink string string
  | SerialClose
  | ProcessExit

text \<open>
  The functions of \<open>components/dbFunctions.js\<close> that the listeners call. Each returns a
  promise; how it settles is a parameter of the model.
\<close>

record dbFunctions =
  putCodeInDB :: "code_event \<Rightarrow> string promise"
  isCodeAvailable :: "rfcode \<Rightarrow> availability promise"
  alarmTriggered :: "string option \<Rightarrow> string \<Rightarrow> card option promise"

text \<open>
  \<open>config.json\<close>, as far as the code reads it; \<open>use_external_arduino\<close> is
  \<open>config.platforms.rpi['use-external-arduino']\<close>.
\<close>

record config =
  DEBUG :: bool
  use_external_arduino :: bool

section \<open>The code-event listener\<close>

text \<open>\<open>if (config.DEBUG) console.log(...)\<close>\<close>

definition debug_log :: "config \<Rightarrow> jsarg list \<Rightarrow> effect list" where
  "debug_log cfg args = (if DEBUG cfg then [ConsoleLog args] else [])"

text \<open>
  The continuation of \<open>dbFunctions.alarmTriggered(card_shortname, 'alarm')\<close>: it runs
  once that promise has settled.
\<close>

definition alarm_then :: "card option promise \<Rightarrow> effect list" where
  "alarm_then p =
     (case p of
        Resolved c \<Rightarrow>
          (case c of
             Some card' \<Rightarrow>
               IoEmit ''uiTriggerAlarm'' (ACard card') #
               (if armed (device card') then [AlarmAdviseAll card'] else [])
           | None \<Rightarrow> [])
      | Rejected err \<Rightarrow> [ConsoleError [AErr err]])"

text \<open>
  The continuation of \<open>dbFunctions.isCodeAvailable(codeData.code)\<close>, with its
  \<open>.catch\<close>. In the branch of a code that is not available the call of
  \<open>alarmTriggered\<close> only starts the lookup; \<open>webHookCodeDetected\<close> is called in the same
  turn, and the continuation of the lookup runs after it.
\<close>

definition available_then ::
  "config \<Rightarrow> dbFunctions \<Rightarrow> code_event \<Rightarrow> availability promise \<Rightarrow> effect list" where
  "available_then cfg db codeData p =
     (case p of
        Resolved result \<Rightarrow>
          debug_log cfg
            [AConcat [AStr ''code available: '', ABool (isAvailable result),
                      AStr '' assigned to: '', AShortname (assignedTo result)]] @
          (if isAvailable result then
             [IoEmit ''newRFCode'' (ACodeData codeData),
              WebHookCodeDetected codeData]
           else
             (let card_shortname = assignedTo result in
              [AlarmTriggered card_shortname ''alarm'',
               WebHookCodeDetected codeData] @
              alarm_then (alarmTriggered db card_shortname ''alarm'')))
      | Rejected err \<Rightarrow> [ConsoleError [AErr err]])"

text \<open>The continuation of \<open>dbFunctions.putCodeInDB(codeData)\<close>.\<close>

definition put_then ::
  "config \<Rightarrow> dbFunctions \<Rightarrow> code_event \<Rightarrow> string promise \<Rightarrow> effect list" where
  "put_then cfg db codeData p =
     (case p of
        Resolved mex \<Rightarrow>
          debug_log cfg [AStr mex] @
          IsCodeAvailable (code codeData) #
          available_then cfg db codeData (isCodeAvailable db (code codeData))
      | Rejected err \<Rightarrow> [ConsoleError [AErr err]])"

text \<open>The function that \<open>index.js\<close> gives to \<open>rf433mhz.on\<close>.\<close>

definition on_codeData :: "config \<Rightarrow> dbFunctions \<Rightarrow> code_event \<Rightarrow> effect list" where
  "on_codeData cfg db codeData =
     debug_log cfg [AStr ''RFcode received: '', ACodeData codeData] @
     (if status codeData = ''received'' then
        PutCodeInDB codeData # put_then cfg db codeData (putCodeInDB db codeData)
      else [])"

text \<open>
  The first turn of that function: what it does before it returns, for any value that
  \<open>JSON.parse\<close> can hand to it. \<open>None\<close> is the JSON value \<open>null\<close>, on which reading
  \<open>codeData.status\<close> throws a \<open>TypeError\<close>; a value whose \<open>status\<close> is missing or
  is not a string is a code event with a status other than \<open>'received'\<close>. The call of
  \<open>putCodeInDB\<close> returns a promise; its continuation \<open>put_then\<close> runs in a later
  turn.
\<close>

definition on_codeData_turn :: "config \<Rightarrow> code_event option \<Rightarrow> effect list \<times> error option" where
  "on_codeData_turn cfg parsed =
     (case parsed of
        None \<Rightarrow>
          (debug_log cfg [AStr ''RFcode received: '', ANull], Some (Error ''TypeError''))
      | Some codeData \<Rightarrow>
          (debug_log cfg [AStr ''RFcode received: '', ACodeData codeData] @
           (if status codeData = ''received'' then [PutCodeInDB codeData] else []),
           None))"

section \<open>The card listeners\<close>

text \<open>\<open>db.CARDS.on('inserted', ...)\<close>\<close>

definition card_inserted :: "card \<Rightarrow> effect list" where
  "card_inserted card' = [AsyncEmitInitCards]"

text \<open>
  The query built by the \<open>removed\<close> listener; \<open>None\<close> is \<open>undefined\<close>, the only
  falsy value \<open>codes_to_remove\<close> can hold at the test \<open>if (codes_to_remove)\<close>.
\<close>

definition codes_to_remove :: "card \<Rightarrow> query option" where
  "codes_to_remove card' =
     (if type card' = ''switch'' then
        Some (QOr [QCode (on_code (device card')), QCode (off_code (device card'))])
      else if type card' = ''alarm'' then
        Some (QCode (trigger_code (device card')))
      else None)"

text \<open>
  The callback of \<open>db.RFCODES.remove\<close>, called with \<open>(err, numRemoved)\<close>.
\<close>

definition remove_callback :: "error option \<Rightarrow> nat option \<Rightarrow> effect list" where
  "remove_callback err numRemoved =
     (case err of Some e \<Rightarrow> [ConsoleLog [AErr e]] | None \<Rightarrow> []) @
     [ConsoleLog [AConcat [(case numRemoved of Some n \<Rightarrow> ANum n | None \<Rightarrow> AUndefined),
                           AStr '' code/s deleted.'']]]"

text \<open>The callback of \<open>fs.unlink\<close>.\<close>

definition unlink_callback :: "fs_error option \<Rightarrow> effect list" where
  "unlink_callback err =
     (case err of
        Some e \<Rightarrow> [ConsoleError [AStr ''DeleteFile: file not found'', AStr (err_path e)]]
      | None \<Rightarrow> [])"

text \<open>
  \<open>if (card.img)\<close>: a missing field and the empty string are falsy; otherwise the
  file named by the field is to be deleted.
\<close>

definition img_to_unlink :: "card \<Rightarrow> string option" where
  "img_to_unlink card' =
     (case img card' of Some s \<Rightarrow> (if s \<noteq> [] then Some s else None) | None \<Rightarrow> None)"

text \<open>
  \<open>db.CARDS.on('removed', ...)\<close>. The listener runs to its end first; the callbacks of
  \<open>remove\<close> and \<open>unlink\<close> run afterwards, in an order the program does not fix
  (\<open>unlink_first\<close>). \<open>remove_result\<close> and \<open>unlink_result\<close> are what the store and the
  file system answer. \<open>FsUnlink base file\<close> is
  \<open>fs.unlink(path.resolve(base, file), ...)\<close>.
\<close>

definition card_removed ::
  "card \<Rightarrow> error option \<times> nat option \<Rightarrow> fs_error option \<Rightarrow> bool \<Rightarrow> effect list" where
  "card_removed card' remove_result unlink_result unlink_first =
     (let removing = codes_to_remove card';
          unlinking = img_to_unlink card';
          remove_done =
            (case removing of
               Some q \<Rightarrow> remove_callback (fst remove_result) (snd remove_result)
             | None \<Rightarrow> []);
          unlink_done =
            (case unlinking of Some file \<Rightarrow> unlink_callback unlink_result | None \<Rightarrow> [])
      in
        (case removing of Some q \<Rightarrow> [RFCODES_remove q True] | None \<Rightarrow> []) @
        (case unlinking of Some file \<Rightarrow> [FsUnlink ''./www/'' file] | None \<Rightarrow> []) @
        [ConsoleLog [AStr (''Card '' @ shortname card' @ '' deleted.'')],
         AsyncEmitInitCards] @
        (if unlink_first then unlink_done @ remove_done else remove_done @ unlink_done))"

section \<open>The transport class\<close>

text \<open>\<open>_constructor\<close>: it throws without a parameter, and fixes \<open>type\<close> otherwise.\<close>

definition rf433mhz_constructor :: "config \<Rightarrow> board option \<Rightarrow> error + rf_type" where
  "rf433mhz_constructor cfg board =
     (case board of
        None \<Rightarrow> Inl (Error ''No parameter passed to rf433mhz class'')
      | Some b \<Rightarrow>
          Inr (if platform b = ''rpi'' \<and> \<not> use_external_arduino cfg then Rpi else Arduino))"

text \<open>
  \<open>this.on(callback)\<close>, as the handler it installs for one piece of incoming data.
  \<open>JSON_parse\<close> is \<open>JSON.parse\<close>, which throws on a malformed text. The \<open>try\<close> block
  also holds the call of \<open>callback\<close>: a callback is given by the effects of its call
  and the exception the call ends with, if any. The handler passes on whatever value
  \<open>JSON.parse\<close> returns.
\<close>

definition rf433mhz_on ::
  "rf_type \<Rightarrow> (string \<Rightarrow> error + 'v) \<Rightarrow>
   ('v \<Rightarrow> effect list \<times> error option) \<Rightarrow> string \<Rightarrow> effect list" where
  "rf433mhz_on t JSON_parse callback data =
     (if t = Rpi then []
      else
        (case JSON_parse data of
           Inl e \<Rightarrow> [ConsoleLog [AStr ''Error parsing this JSON: '', AStr data]]
         | Inr codeData \<Rightarrow>
             (case callback codeData of
                (effects, None) \<Rightarrow> effects
              | (effects, Some e) \<Rightarrow>
                  effects @ [ConsoleLog [AStr ''Error parsing this JSON: '', AStr data]])))"

text \<open>
  The installed handler runs once for each piece of data, in the order of arrival: the
  effects of the turns in which the data arrive.
\<close>

definition listen ::
  "rf_type \<Rightarrow> (string \<Rightarrow> error + 'v) \<Rightarrow>
   ('v \<Rightarrow> effect list \<times> error option) \<Rightarrow> string list \<Rightarrow> effect list" where
  "listen t JSON_parse callback datas = concat (map (rf433mhz_on t JSON_parse callback) datas)"

text \<open>
  \<open>this.close(callback)\<close>; \<open>close_result\<close> is the error, if any, that
  \<open>serial.close\<close> passes to its callback.
\<close>

definition rf433mhz_close ::
  "rf_type \<Rightarrow> error option \<Rightarrow> (error option \<Rightarrow> effect list) \<Rightarrow> effect list" where
  "rf433mhz_close t close_result callback =
     (if t = Arduino then SerialClose # callback close_result else [])"

text \<open>
  The wiring of \<open>index.js\<close>: \<open>rf433mhz.on(function(codeData) {...})\<close>, as the effects
  of the turns in which the data arrive. Each \<open>PutCodeInDB\<close> among them starts a
  promise whose continuation \<open>put_then\<close> runs in later turns, at times that the program
  does not fix; these continuations are not part of this trace.
\<close>

definition engine ::
  "config \<Rightarrow> rf_type \<Rightarrow> (string \<Rightarrow> error + code_event option) \<Rightarrow>
   string list \<Rightarrow> effect list" where
  "engine cfg t JSON_parse datas = listen t JSON_parse (on_codeData_turn cfg) datas"

section \<open>Shutdown\<close>

text \<open>The callback that the \<open>SIGINT\<close> listener gives to \<open>rf433mhz.close\<close>.\<close>

definition close_callback :: "error option \<Rightarrow> effect list" where
  "close_callback err =
     (case err of
        Some e \<Rightarrow> [ConsoleError [AStr ''Error: '', AErr e]]
      | None \<Rightarrow> [ConsoleLog [AStr ''Serial Port closed.'']]) @
     [ProcessExit]"

text \<open>
  \<open>process.on('SIGINT', ...)\<close>; the variable \<open>rf433mhz\<close> is \<open>undefined\<close>
  (\<open>None\<close>) until the platform step has set it.
\<close>

definition SIGINT_handler :: "rf_type option \<Rightarrow> error option \<Rightarrow> effect list" where
  "SIGINT_handler rf433mhz close_result =
     ConsoleLog [AStr ''Closing...''] #
     (case rf433mhz of
        Some rf \<Rightarrow> rf433mhz_close rf close_result close_callback
      | None \<Rightarrow> [ProcessExit])"

section \<open>Reading a trace\<close>

fun is_code_detected :: "effect \<Rightarrow> bool" where
  "is_code_detected (WebHookCodeDetected _) = True"
| "is_code_detected _ = False"

fun is_alarm_advise :: "effect \<Rightarrow> bool" where
  "is_alarm_advise (AlarmAdviseAll _) = True"
| "is_alarm_advise _ = False"

fun is_alarm_lookup :: "effect \<Rightarrow> bool" where
  "is_alarm_lookup (AlarmTriggered _ _) = True"
| "is_alarm_lookup _ = False"

fun is_io_emit :: "effect \<Rightarrow> bool" where
  "is_io_emit (IoEmit _ _) = True"
| "is_io_emit _ = False"


fun is_cards_changed :: "effect \<Rightarrow> bool" where
  "is_cards_changed AsyncEmitInitCards = True"
| "is_cards_changed _ = False"

fun is_remove :: "effect \<Rightarrow> bool" where
  "is_remove (RFCODES_remove _ _) = True"
| "is_remove _ = False"

text \<open>
  \<open>io.emit\<close> reaches every open socket: what each socket of \<open>sockets\<close> receives from
  one effect.
\<close>

fun deliveries :: "'s list \<Rightarrow> effect \<Rightarrow> ('s \<times> string \<times> jsarg) list" where
  "deliveries sockets (IoEmit event payload) = map (\<lambda>s. (s, event, payload)) sockets"
| "deliveries sockets _ = []"


section \<open>Example values\<close>

text \<open>
  The switch \<open>S\<close> (codes 111 and 222) and the alarm \<open>A\<close> (trigger code 555) of the
  specification's examples, a store whose operations all succeed, a store whose upsert
  fails, and a configuration.
\<close>

abbreviation card_S :: card where
  "card_S \<equiv>
     \<lparr>shortname = ''S'', type = ''switch'',
      device = \<lparr>on_code = Some (CodeNum 111), off_code = Some (CodeNum 222),
                trigger_code = None, armed = False\<rparr>,
      img = Some ''uploads/s.png''\<rparr>"

abbreviation card_A :: "bool \<Rightarrow> card" where
  "card_A is_armed \<equiv>
     \<lparr>shortname = ''A'', type = ''alarm'',
      device = \<lparr>on_code = None, off_code = None,
                trigger_code = Some (CodeNum 555), armed = is_armed\<rparr>,
      img = None\<rparr>"

abbreviation received :: "int \<Rightarrow> code_event" where
  "received n \<equiv> \<lparr>code = CodeNum n, status = ''received''\<rparr>"

abbreviation store ::
  "availability promise \<Rightarrow> card option promise \<Rightarrow> dbFunctions" where
  "store available alarm \<equiv>
     \<lparr>putCodeInDB = (\<lambda>codeData. Resolved ''code stored''),
      isCodeAvailable = (\<lambda>c. available),
      alarmTriggered = (\<lambda>card_shortname t. alarm)\<rparr>"

abbreviation failing_store :: dbFunctions where
  "failing_store \<equiv>
     \<lparr>putCodeInDB = (\<lambda>codeData. Rejected (Error ''store closed'')),
      isCodeAvailable = (\<lambda>c. Resolved \<lparr>isAvailable = True, assignedTo = None\<rparr>),
      alarmTriggered = (\<lambda>card_shortname t. Resolved None)\<rparr>"

abbreviation assigned_to_A :: availability where
  "assigned_to_A \<equiv> \<lparr>isAvailable = False, assignedTo = Some ''A''\<rparr>"

abbreviation free :: availability where
  "free \<equiv> \<lparr>isAvailable = True, assignedTo = None\<rparr>"

abbreviation quiet :: config where
  "quiet \<equiv> \<lparr>DEBUG = False, use_external_arduino = False\<rparr>"

section \<open>Properties of the code-event listener\<close>

lemmas listener_defs =
  on_codeData_def put_then_def available_then_def alarm_then_def debug_log_def Let_def

text \<open>
  C1: when a received code resolves as not available and the alarm lookup returns a card,
  \<open>uiTriggerAlarm\<close> is emitted with that card whether it is armed or not, and it is the
  only live event; \<open>notification.alarmAdviseAll\<close> (the alarm-advise webhook dispatch)
  is called once if \<open>card.device.armed\<close> holds and not at all otherwise.
\<close>

theorem alarm_gating:
  assumes "status codeData = ''received''"
    and "putCodeInDB db codeData = Resolved mex"
    and "isCodeAvailable db (code codeData) = Resolved result"
    and "\<not> isAvailable result"
    and "alarmTriggered db (assignedTo result) ''alarm'' = Resolved (Some card')"
  shows "filter is_io_emit (on_codeData cfg db codeData) =
           [IoEmit ''uiTriggerAlarm'' (ACard card')] \<and>
         filter is_alarm_advise (on_codeData cfg db codeData) =
           (if armed (device card') then [AlarmAdviseAll card'] else [])"
  using assms by (simp add: listener_defs)

theorem alarm_gating_witness:
  "(filter is_io_emit
      (on_codeData quiet (store (Resolved assigned_to_A) (Resolved (Some (card_A True))))
         (received 555)) =
      [IoEmit ''uiTriggerAlarm'' (ACard (card_A True))] \<and>
    filter is_alarm_advise
      (on_codeData quiet (store (Resolved assigned_to_A) (Resolved (Some (card_A True))))
         (received 555)) =
      [AlarmAdviseAll (card_A True)]) \<and>
   (filter is_io_emit
      (on_codeData quiet (store (Resolved assigned_to_A) (Resolved (Some (card_A False))))
         (received 555)) =
      [IoEmit ''uiTriggerAlarm'' (ACard (card_A False))] \<and>
    filter is_alarm_advise
      (on_codeData quiet (store (Resolved assigned_to_A) (Resolved (Some (card_A False))))
         (received 555)) = [])"
  using
    alarm_gating [of "received 555"
      "store (Resolved assigned_to_A) (Resolved (Some (card_A True)))"
      "''code stored''" assigned_to_A "card_A True" quiet]
    alarm_gating [of "received 555"
      "store (Resolved assigned_to_A) (Resolved (Some (card_A False)))"
      "''code stored''" assigned_to_A "card_A False" quiet]
  by simp

text \<open>
  C3, as amended: a received code event whose upsert succeeds and whose availability
  resolves, as available or as not available, leads to exactly one code-detected webhook
  dispatch (one call of \<open>notification.webHookCodeDetected\<close>), and that dispatch carries
  the raw code event.
\<close>

theorem code_detected_exactly_once:
  assumes "status codeData = ''received''"
    and "putCodeInDB db codeData = Resolved mex"
    and "isCodeAvailable db (code codeData) = Resolved result"
  shows "filter is_code_detected (on_codeData cfg db codeData) = [WebHookCodeDetected codeData]"
  using assms by (simp add: listener_defs split: promise.split option.split)

theorem code_detected_exactly_once_witness:
  "filter is_code_detected
     (on_codeData quiet (store (Resolved free) (Resolved None)) (received 999)) =
     [WebHookCodeDetected (received 999)] \<and>
   filter is_code_detected
     (on_codeData quiet (store (Resolved assigned_to_A) (Resolved (Some (card_A True))))
        (received 555)) =
     [WebHookCodeDetected (received 555)]"
  using
    code_detected_exactly_once [of "received 999" "store (Resolved free) (Resolved None)"
      "''code stored''" free quiet]
    code_detected_exactly_once [of "received 555"
      "store (Resolved assigned_to_A) (Resolved (Some (card_A True)))"
      "''code stored''" assigned_to_A quiet]
  by simp

text \<open>
  C3 as it is written, for every received code event, fails: the event 999 has the status
  \<open>'received'\<close>, the upsert is rejected, and the listener makes no code-detected
  dispatch; it writes the error to the console and does nothing more.
\<close>

theorem code_detected_store_failure_counterexample:
  "status (received 999) = ''received'' \<and>
   filter is_code_detected (on_codeData quiet failing_store (received 999)) = [] \<and>
   on_codeData quiet failing_store (received 999) =
     [PutCodeInDB (received 999), ConsoleError [AErr (Error ''store closed'')]]"
  by (simp add: listener_defs)

text \<open>
  When the upsert or the availability lookup fails, the listener logs the error and stops:
  there is no code-detected dispatch for that event.
\<close>

lemma no_code_detected_on_store_failure:
  assumes "putCodeInDB db codeData = Rejected err \<or>
           isCodeAvailable db (code codeData) = Rejected err"
  shows "filter is_code_detected (on_codeData cfg db codeData) = []"
  using assms by (auto simp add: listener_defs split: promise.split)

text \<open>
  The listener begins with its first turn; the continuation of the upsert follows.
\<close>

lemma on_codeData_turn_first:
  "on_codeData cfg db codeData =
     fst (on_codeData_turn cfg (Some codeData)) @
     (if status codeData = ''received''
      then put_then cfg db codeData (putCodeInDB db codeData) else [])"
  by (simp add: on_codeData_def on_codeData_turn_def)



text \<open>
  C5: when a received code resolves as available, the raw code event is emitted as
  \<open>newRFCode\<close>, once and as the only live event, so that every open socket receives
  it; \<open>dbFunctions.alarmTriggered\<close> is not called.
\<close>

theorem available_broadcast:
  assumes "status codeData = ''received''"
    and "putCodeInDB db codeData = Resolved mex"
    and "isCodeAvailable db (code codeData) = Resolved result"
    and "isAvailable result"
  shows "filter is_io_emit (on_codeData cfg db codeData) =
           [IoEmit ''newRFCode'' (ACodeData codeData)] \<and>
         concat (map (deliveries sockets) (on_codeData cfg db codeData)) =
           map (\<lambda>s. (s, ''newRFCode'', ACodeData codeData)) sockets \<and>
         filter is_alarm_lookup (on_codeData cfg db codeData) = []"
  using assms by (simp add: listener_defs)

theorem available_broadcast_witness:
  "filter is_io_emit
     (on_codeData quiet (store (Resolved free) (Resolved None)) (received 999)) =
     [IoEmit ''newRFCode'' (ACodeData (received 999))] \<and>
   concat (map (deliveries [1, 2 :: nat])
     (on_codeData quiet (store (Resolved free) (Resolved None)) (received 999))) =
     [(1, ''newRFCode'', ACodeData (received 999)),
      (2, ''newRFCode'', ACodeData (received 999))] \<and>
   filter is_alarm_lookup
     (on_codeData quiet (store (Resolved free) (Resolved None)) (received 999)) = []"
  using
    available_broadcast [of "received 999" "store (Resolved free) (Resolved None)"
      "''code stored''" free quiet "[1, 2 :: nat]"]
  by simp

text \<open>
  C9: in the branch of a code that is not available, whatever the alarm lookup answers,
  there is exactly one code-detected dispatch, and all that the lookup's continuation does
  comes after it. When the lookup fails, the dispatch has happened and the error is
  logged afterwards.
\<close>

theorem code_detected_despite_alarm_failure:
  assumes "status codeData = ''received''"
    and "putCodeInDB db codeData = Resolved mex"
    and "isCodeAvailable db (code codeData) = Resolved result"
    and "\<not> isAvailable result"
  shows "filter is_code_detected (on_codeData cfg db codeData) =
           [WebHookCodeDetected codeData] \<and>
         dropWhile (\<lambda>e. \<not> is_code_detected e) (on_codeData cfg db codeData) =
           WebHookCodeDetected codeData #
           alarm_then (alarmTriggered db (assignedTo result) ''alarm'') \<and>
         (alarmTriggered db (assignedTo result) ''alarm'' = Rejected err \<longrightarrow>
          dropWhile (\<lambda>e. \<not> is_code_detected e) (on_codeData cfg db codeData) =
            [WebHookCodeDetected codeData, ConsoleError [AErr err]])"
  using assms by (simp add: listener_defs split: promise.split option.split)

theorem code_detected_despite_alarm_failure_witness:
  "filter is_code_detected
     (on_codeData quiet (store (Resolved assigned_to_A) (Rejected (Error ''store closed'')))
        (received 555)) =
     [WebHookCodeDetected (received 555)] \<and>
   dropWhile (\<lambda>e. \<not> is_code_detected e)
     (on_codeData quiet (store (Resolved assigned_to_A) (Rejected (Error ''store closed'')))
        (received 555)) =
     [WebHookCodeDetected (received 555), ConsoleError [AErr (Error ''store closed'')]]"
  using
    code_detected_despite_alarm_failure [where codeData = "received 555"
      and db = "store (Resolved assigned_to_A) (Rejected (Error ''store closed''))"
      and mex = "''code stored''" and result = assigned_to_A
      and err = "Error ''store closed''" and cfg = quiet]
  by (simp add: alarm_then_def)

section \<open>Properties of the card listeners\<close>

lemmas removed_defs =
  card_removed_def codes_to_remove_def remove_callback_def unlink_callback_def Let_def

text \<open>
  C2: the \<open>removed\<close> listener calls \<open>db.RFCODES.remove\<close> once, with \<open>multi: true\<close>,
  with the \<open>$or\<close> of \<open>on_code\<close> and \<open>off_code\<close> for a switch and with the
  \<open>trigger_code\<close> for an alarm, and does not call it for a card of any other type. When
  the store answers that zero codes were removed the callback only prints the count.
\<close>

theorem removed_card_codes:
  "filter is_remove (card_removed card' remove_result unlink_result unlink_first) =
     (if type card' = ''switch'' then
        [RFCODES_remove
           (QOr [QCode (on_code (device card')), QCode (off_code (device card'))]) True]
      else if type card' = ''alarm'' then
        [RFCODES_remove (QCode (trigger_code (device card'))) True]
      else []) \<and>
   remove_callback None (Some 0) = [ConsoleLog [AConcat [ANum 0, AStr '' code/s deleted.'']]]"
  by (simp add: removed_defs split: option.split)

theorem removed_card_codes_witness:
  "filter is_remove (card_removed card_S (None, Some 2) None False) =
     [RFCODES_remove (QOr [QCode (Some (CodeNum 111)), QCode (Some (CodeNum 222))]) True] \<and>
   filter is_remove (card_removed (card_A True) (None, Some 1) None False) =
     [RFCODES_remove (QCode (Some (CodeNum 555))) True] \<and>
   filter is_remove
     (card_removed (card_S\<lparr>type := ''info''\<rparr>) (None, Some 0) None False) = []"
  using
    removed_card_codes [of card_S "(None, Some 2)" None False]
    removed_card_codes [of "card_A True" "(None, Some 1)" None False]
    removed_card_codes [of "card_S\<lparr>type := ''info''\<rparr>" "(None, Some 0)" None False]
  by simp

text \<open>
  C6: the \<open>inserted\<close> and the \<open>removed\<close> listener both call
  \<open>socketFunctions.asyncEmitInitCards\<close> exactly once; on removal this holds whatever
  the store answers to the removal of the codes and whatever the file system answers to
  the deletion of the image. A failed deletion of the image is written to the console.
\<close>

theorem cards_changed_signal:
  "filter is_cards_changed (card_inserted card') = [AsyncEmitInitCards] \<and>
   filter is_cards_changed (card_removed card' remove_result unlink_result unlink_first) =
     [AsyncEmitInitCards] \<and>
   (img_to_unlink card' = Some img_file \<longrightarrow> unlink_result = Some e \<longrightarrow>
      ConsoleError [AStr ''DeleteFile: file not found'', AStr (err_path e)]
        \<in> set (card_removed card' remove_result unlink_result unlink_first))"
  by (simp add: card_inserted_def removed_defs split: option.split)

theorem cards_changed_signal_witness:
  "filter is_cards_changed (card_inserted card_S) = [AsyncEmitInitCards] \<and>
   filter is_cards_changed
     (card_removed card_S (Some (Error ''store closed''), None)
        (Some (FsError ''/srv/www/uploads/s.png'')) True) = [AsyncEmitInitCards] \<and>
   ConsoleError [AStr ''DeleteFile: file not found'', AStr ''/srv/www/uploads/s.png'']
     \<in> set (card_removed card_S (Some (Error ''store closed''), None)
              (Some (FsError ''/srv/www/uploads/s.png'')) True)"
  using
    cards_changed_signal [where card' = card_S
      and remove_result = "(Some (Error ''store closed''), None)"
      and unlink_result = "Some (FsError ''/srv/www/uploads/s.png'')"
      and unlink_first = True and img_file = "''uploads/s.png''"
      and e = "FsError ''/srv/www/uploads/s.png''"]
  by (simp add: img_to_unlink_def)

section \<open>Properties of the transport class\<close>

text \<open>The type is \<open>'rpi'\<close> on a Raspberry Pi that does not use an external Arduino.\<close>

lemma rf433mhz_constructor_Rpi:
  "(rf433mhz_constructor cfg (Some b) = Inr Rpi) =
     (platform b = ''rpi'' \<and> \<not> use_external_arduino cfg)"
  by (simp add: rf433mhz_constructor_def)

text \<open>
  C7: on the serial transport, a piece of data that \<open>JSON.parse\<close> rejects is written to
  the console and nothing else happens, whatever the callback is: the callback is not
  called and the engine does nothing. The data that follow are handled as before.
\<close>

theorem malformed_payload_dropped:
  assumes "JSON_parse data = Inl e"
  shows "rf433mhz_on Arduino JSON_parse callback data =
           [ConsoleLog [AStr ''Error parsing this JSON: '', AStr data]] \<and>
         listen Arduino JSON_parse callback (data # rest) =
           ConsoleLog [AStr ''Error parsing this JSON: '', AStr data] #
           listen Arduino JSON_parse callback rest \<and>
         engine cfg Arduino JSON_parse (data # rest) =
           ConsoleLog [AStr ''Error parsing this JSON: '', AStr data] #
           engine cfg Arduino JSON_parse rest"
  using assms by (simp add: rf433mhz_on_def listen_def engine_def)

theorem malformed_payload_dropped_witness:
  "rf433mhz_on Arduino
     (\<lambda>s. if s = ''{code:'' then Inl (Error ''SyntaxError'') else Inr (Some (received 999)))
     (\<lambda>parsed. ([PutCodeInDB (received 999)], None)) ''{code:'' =
     [ConsoleLog [AStr ''Error parsing this JSON: '', AStr ''{code:'']] \<and>
   listen Arduino
     (\<lambda>s. if s = ''{code:'' then Inl (Error ''SyntaxError'') else Inr (Some (received 999)))
     (\<lambda>parsed. ([PutCodeInDB (received 999)], None)) [''{code:'', ''ok''] =
     [ConsoleLog [AStr ''Error parsing this JSON: '', AStr ''{code:''],
      PutCodeInDB (received 999)] \<and>
   engine quiet Arduino
     (\<lambda>s. if s = ''{code:'' then Inl (Error ''SyntaxError'') else Inr (Some (received 999)))
     [''{code:'', ''ok''] =
     [ConsoleLog [AStr ''Error parsing this JSON: '', AStr ''{code:''],
      PutCodeInDB (received 999)]"
  using
    malformed_payload_dropped [where JSON_parse =
        "\<lambda>s. if s = ''{code:'' then Inl (Error ''SyntaxError'')
             else Inr (Some (received 999))"
      and data = "''{code:''" and e = "Error ''SyntaxError''"
      and callback = "\<lambda>parsed. ([PutCodeInDB (received 999)], None)"
      and rest = "[''ok'']" and cfg = quiet]
  by (simp add: listen_def rf433mhz_on_def engine_def on_codeData_turn_def debug_log_def)

text \<open>
  The value \<open>null\<close> is not malformed for \<open>JSON.parse\<close>, but the listener of
  \<open>index.js\<close> throws on it, inside the same \<open>try\<close>: it is reported in the same way,
  after the debug output if there is one.
\<close>

lemma engine_null_reported:
  assumes "JSON_parse data = Inr None"
  shows "engine cfg Arduino JSON_parse [data] =
           debug_log cfg [AStr ''RFcode received: '', ANull] @
           [ConsoleLog [AStr ''Error parsing this JSON: '', AStr data]]"
  using assms by (simp add: rf433mhz_on_def listen_def engine_def on_codeData_turn_def)

text \<open>
  C10: with the type \<open>'rpi'\<close> the handler that \<open>on\<close> installs does nothing with the
  data it receives: whatever the callback and the data are, the callback is not called,
  and no code event reaches the listener of the engine.
\<close>

theorem rpi_listener_never_invoked:
  "rf433mhz_on Rpi JSON_parse callback data = [] \<and>
   listen Rpi JSON_parse callback datas = [] \<and>
   engine cfg Rpi JSON_parse datas = []"
  by (simp add: rf433mhz_on_def listen_def engine_def)

theorem rpi_listener_never_invoked_witness:
  "listen Rpi (\<lambda>s. Inr (Some (received 999))) (\<lambda>parsed. ([PutCodeInDB (received 999)], None))
     [''{code: 999}'', ''{code: 999}''] = [] \<and>
   engine quiet Rpi (\<lambda>s. Inr (Some (received 999))) [''{code: 999}'', ''{code: 999}''] = [] \<and>
   listen Arduino (\<lambda>s. Inr (Some (received 999)))
     (\<lambda>parsed. ([PutCodeInDB (received 999)], None))
     [''{code: 999}''] = [PutCodeInDB (received 999)]"
  using
    rpi_listener_never_invoked [where JSON_parse = "\<lambda>s. Inr (Some (received 999))"
      and callback = "\<lambda>parsed. ([PutCodeInDB (received 999)], None)"
      and data = "''{code: 999}''" and datas = "[''{code: 999}'', ''{code: 999}'']"
      and cfg = quiet]
  by (simp add: listen_def rf433mhz_on_def)

section \<open>Properties of the shutdown\<close>

text \<open>
  On \<open>SIGINT\<close>, when \<open>rf433mhz\<close> is undefined the process exits at once. On the
  serial transport the port is closed first, and \<open>process.exit\<close> is the last action of
  the close callback, whether closing succeeded or not.
\<close>

lemma sigint_undefined_exits:
  "SIGINT_handler None close_result = [ConsoleLog [AStr ''Closing...''], ProcessExit]"
  by (simp add: SIGINT_handler_def)

lemma sigint_arduino_close_then_exit:
  "SIGINT_handler (Some Arduino) close_result =
     [ConsoleLog [AStr ''Closing...''], SerialClose] @
     (case close_result of
        Some e \<Rightarrow> [ConsoleError [AStr ''Error: '', AErr e]]
      | None \<Rightarrow> [ConsoleLog [AStr ''Serial Port closed.'']]) @
     [ProcessExit]"
  by (simp add: SIGINT_handler_def rf433mhz_close_def close_callback_def)

text \<open>
  C8 fails for the type \<open>'rpi'\<close>. There \<open>rf433mhz\<close> is defined, but \<open>close\<close> does
  nothing and never calls its callback: on \<open>SIGINT\<close> the listener only prints
  \<open>Closing...\<close>; nothing is closed and \<open>process.exit\<close> is not reached, while the
  serial transport is closed and the process exits.
\<close>

theorem sigint_rpi_no_exit:
  "SIGINT_handler (Some Rpi) close_result = [ConsoleLog [AStr ''Closing...'']] \<and>
   ProcessExit \<notin> set (SIGINT_handler (Some Rpi) close_result) \<and>
   SerialClose \<notin> set (SIGINT_handler (Some Rpi) close_result) \<and>
   last (SIGINT_handler (Some Arduino) close_result) = ProcessExit"
  by (simp add: SIGINT_handler_def rf433mhz_close_def close_callback_def)

end
